theory Spec2Isabelle
  imports Main
begin

section \<open>Shared modelling vocabulary\<close>

text \<open>
  The repository holds two command-line clients written in Python:
  \<^verbatim>\<open>remote_solenoid.py\<close> (the solenoid control client with its status poller) and
  \<^verbatim>\<open>demoPullRequests.py\<close> (the sensor data client with its display formatter and menu).
  Both are modelled here as pure functions: printed lines are collected in a log, every
  HTTP call is recorded as a \<open>request\<close> value and answered by an explicit server function,
  and every exception of the source is a value.
\<close>

subsection \<open>Text helpers\<close>

definition nl :: char where
  "nl = CHR 0x0A"

definition digit_char :: "nat \<Rightarrow> char" where
  "digit_char d = ''0123456789'' ! d"

fun show_nat :: "nat \<Rightarrow> string" where
  "show_nat n = (if n < 10 then [digit_char n] else show_nat (n div 10) @ [digit_char (n mod 10)])"

declare show_nat.simps [simp del]

definition show_int :: "int \<Rightarrow> string" where
  \<comment> \<open>Python's \<^verbatim>\<open>str\<close> of an integer.\<close>
  "show_int i = (if i < 0 then CHR ''-'' # show_nat (nat (- i)) else show_nat (nat i))"

definition upper_char :: "char \<Rightarrow> char" where
  "upper_char c = (if (97::nat) \<le> of_char c \<and> of_char c \<le> (122::nat) then char_of (of_char c - (32::nat)) else c)"

definition lower_char :: "char \<Rightarrow> char" where
  "lower_char c = (if (65::nat) \<le> of_char c \<and> of_char c \<le> (90::nat) then char_of (of_char c + (32::nat)) else c)"

definition upper :: "string \<Rightarrow> string" where
  \<comment> \<open>\<^verbatim>\<open>str.upper\<close>, on ASCII text.\<close>
  "upper s = map upper_char s"

definition capitalize :: "string \<Rightarrow> string" where
  \<comment> \<open>\<^verbatim>\<open>str.capitalize\<close>, on ASCII text: first character upper case, the rest lower case.\<close>
  "capitalize s = (case s of [] \<Rightarrow> [] | c # cs \<Rightarrow> upper_char c # map lower_char cs)"

definition center :: "nat \<Rightarrow> string \<Rightarrow> string" where
  \<comment> \<open>\<^verbatim>\<open>str.center(width)\<close> for an even width: the extra blank of an odd padding goes right.\<close>
  "center w s =
     (if w \<le> length s then s
      else let pad = w - length s; left = pad div 2
           in replicate left CHR '' '' @ s @ replicate (pad - left) CHR '' '')"

definition ljust :: "nat \<Rightarrow> string \<Rightarrow> string" where
  \<comment> \<open>the format specification \<^verbatim>\<open>:<20\<close> of an f-string.\<close>
  "ljust w s = s @ replicate (w - length s) CHR '' ''"

subsection \<open>JSON values\<close>

text \<open>
  The scalar JSON values that the clients read out of a response. Numbers are integers here;
  the rendering of floating-point numbers is outside the model.
\<close>

datatype jval = JNull | JBool bool | JNum int | JStr string

type_synonym jdict = "(string \<times> jval) list"

definition py_str :: "jval \<Rightarrow> string" where
  \<comment> \<open>what an f-string prints for the value.\<close>
  "py_str v = (case v of JNull \<Rightarrow> ''None'' | JBool b \<Rightarrow> (if b then ''True'' else ''False'')
                | JNum n \<Rightarrow> show_int n | JStr s \<Rightarrow> s)"

definition truthy :: "jval \<Rightarrow> bool" where
  "truthy v = (case v of JNull \<Rightarrow> False | JBool b \<Rightarrow> b | JNum n \<Rightarrow> n \<noteq> 0 | JStr s \<Rightarrow> s \<noteq> [])"

definition dict_get :: "jdict \<Rightarrow> string \<Rightarrow> jval \<Rightarrow> jval" where
  \<comment> \<open>\<^verbatim>\<open>d.get(key, default)\<close>\<close>
  "dict_get d k dflt = (case map_of d k of None \<Rightarrow> dflt | Some v \<Rightarrow> v)"

subsection \<open>HTTP requests and responses\<close>

datatype http_method = GET | POST

record request =
  meth :: http_method
  url :: string
  params :: "(string \<times> string) list"
  data :: "(string \<times> string) list"
  timeout :: "nat option"

text \<open>
  \<open>timeout = None\<close> is a call without the \<^verbatim>\<open>timeout\<close> keyword: the \<^verbatim>\<open>requests\<close> library
  then waits without a limit.
\<close>

record response =
  status_code :: int
  rtext :: string
  json :: "jdict option"

text \<open>
  \<open>rtext\<close> is \<^verbatim>\<open>response.text\<close>; \<open>json\<close> is the result of \<^verbatim>\<open>response.json()\<close>, \<open>None\<close> when
  the body does not parse and the call raises (a body that is JSON but not an object is
  outside the model). A server answers a request with a response,
  or the transport fails and \<^verbatim>\<open>requests\<close> raises a \<^verbatim>\<open>RequestException\<close> with a message.
\<close>

type_synonym server = "request \<Rightarrow> string + response"

datatype exc =
    SystemExit int
  | RequestException string
  | OtherException string

section \<open>The solenoid control client (remote_solenoid.py)\<close>

definition ENTS_IP :: string where
  "ENTS_IP = ''172.31.105.241''"

definition PORT :: nat where
  "PORT = 80"

definition BASE_URL :: string where
  "BASE_URL = ''http://'' @ ENTS_IP @ '':'' @ show_nat PORT"

text \<open>
  The process state: the two globals \<^verbatim>\<open>auto_monitoring_active\<close> and
  \<^verbatim>\<open>monitoring_thread\<close>, the threads started so far (\<open>started\<close> holds the
  \<^verbatim>\<open>check_interval\<close> argument of each, a thread's identity is its position), the
  threads that are alive, the requests sent and the lines printed by the main thread.
\<close>

record client =
  auto_monitoring_active :: bool
  monitoring_thread :: "nat option"
  started :: "nat list"
  alive :: "nat list"
  sent :: "request list"
  out :: "string list"

definition client0 :: client where
  "client0 = \<lparr>auto_monitoring_active = False, monitoring_thread = None, started = [],
              alive = [], sent = [], out = []\<rparr>"

definition pr :: "string list \<Rightarrow> client \<Rightarrow> client" where
  \<comment> \<open>one \<^verbatim>\<open>print\<close> call per line\<close>
  "pr ls c = c\<lparr>out := out c @ ls\<rparr>"

definition http :: "server \<Rightarrow> request \<Rightarrow> client \<Rightarrow> (string + response) \<times> client" where
  "http srv r c = (srv r, c\<lparr>sent := sent c @ [r]\<rparr>)"

definition req :: "http_method \<Rightarrow> string \<Rightarrow> request" where
  \<comment> \<open>every call of this client passes \<^verbatim>\<open>timeout=5\<close>\<close>
  "req m path = \<lparr>meth = m, url = BASE_URL @ path, params = [], data = [], timeout = Some 5\<rparr>"

subsection \<open>Status fetch and summary\<close>

definition get_system_status :: "server \<Rightarrow> client \<Rightarrow> jdict option \<times> client" where
  "get_system_status srv c =
     (case http srv (req GET ''/status'') c of
        (Inl e, c1) \<Rightarrow> (None, c1)
      | (Inr r, c1) \<Rightarrow> (if status_code r = 200 then (json r, c1) else (None, c1)))"

definition rule60 :: string where
  "rule60 = replicate 60 CHR ''=''"

definition upper_of :: "jval \<Rightarrow> string option" where
  \<comment> \<open>\<^verbatim>\<open>value.upper()\<close>: only a string has the method, anything else raises AttributeError.\<close>
  "upper_of v = (case v of JStr s \<Rightarrow> Some (upper s) | _ \<Rightarrow> None)"

definition no_upper :: string where
  \<comment> \<open>the message of the AttributeError\<close>
  "no_upper = ''object has no attribute upper''"

definition status_lines :: "bool \<Rightarrow> jdict option \<Rightarrow> string list \<times> exc option" where
  \<comment> \<open>\<^verbatim>\<open>print_status_summary\<close>: the lines printed, and the exception that ends it early.
     The first argument is the value of \<^verbatim>\<open>auto_monitoring_active\<close> when the function reads it.\<close>
  "status_lines active status =
     (let head = [nl # rule60, ''SYSTEM STATUS SUMMARY'', rule60];
          foot = [''Monitoring Active: '' @ (if active then ''YES'' else ''NO''), rule60]
      in case status of
           None \<Rightarrow> (head @ [''Could not fetch system status''] @ foot, None)
         | Some d \<Rightarrow>
             (if d = [] then (head @ [''Could not fetch system status''] @ foot, None)
             else
               let l1 = ''Current Soil Humidity: '' @ py_str (dict_get d ''current_moisture'' (JStr ''N/A'')) @ ''%''
               in case upper_of (dict_get d ''solenoid_state'' (JStr ''unknown'')) of
                    None \<Rightarrow> (head @ [l1], Some (OtherException no_upper))
                  | Some u \<Rightarrow>
                      (head @
                       [l1,
                        ''Solenoid State: '' @ u,
                        ''Auto Irrigation: '' @
                           (if truthy (dict_get d ''auto_irrigation_enabled'' (JBool False))
                            then ''ENABLED'' else ''DISABLED''),
                        ''Irrigation Thresholds: Below '' @ py_str (dict_get d ''min_threshold'' (JStr ''N/A''))
                           @ ''% & Above '' @ py_str (dict_get d ''max_threshold'' (JStr ''N/A'')) @ ''%'',
                        ''Check Interval: '' @ py_str (dict_get d ''check_interval_seconds'' (JStr ''N/A''))
                           @ '' seconds''] @ foot, None)))"

definition print_status_summary :: "jdict option \<Rightarrow> client \<Rightarrow> exc option \<times> client" where
  "print_status_summary status c =
     (case status_lines (auto_monitoring_active c) status of (ls, e) \<Rightarrow> (e, pr ls c))"

subsection \<open>Starting and stopping the poller\<close>

definition thread_is_alive :: "client \<Rightarrow> bool" where
  \<comment> \<open>\<^verbatim>\<open>monitoring_thread and monitoring_thread.is_alive()\<close>\<close>
  "thread_is_alive c = (case monitoring_thread c of None \<Rightarrow> False | Some t \<Rightarrow> t \<in> set (alive c))"

definition start_auto_monitoring :: "nat \<Rightarrow> client \<Rightarrow> client" where
  "start_auto_monitoring check_interval c =
     (if thread_is_alive c then pr [''Auto monitoring is already running''] c
      else pr [''Auto monitoring started'']
             (c\<lparr>auto_monitoring_active := True,
                monitoring_thread := Some (length (started c)),
                started := started c @ [check_interval],
                alive := alive c @ [length (started c)]\<rparr>))"

definition stop_auto_monitoring :: "client \<Rightarrow> client" where
  "stop_auto_monitoring c = pr [''Auto monitoring stopping...''] (c\<lparr>auto_monitoring_active := False\<rparr>)"

subsection \<open>Command dispatch\<close>

definition crlf :: string where
  "crlf = [CHR 0x0D, CHR 0x0A]"

definition arrow :: string where
  \<comment> \<open>the UTF-8 bytes of the arrow in the message of \<^verbatim>\<open>auto_irrigation\<close>\<close>
  "arrow = [CHR 0xE2, CHR 0x86, CHR 0x92]"

fun join_nl :: "string list \<Rightarrow> string" where
  "join_nl [] = []"
| "join_nl [l] = l"
| "join_nl (l # ls) = l @ nl # join_nl ls"

definition usage_message :: string where
  "usage_message = join_nl
     [nl # ''Available Commands:'',
      ''  Basic Control:'',
      ''    open                 - Open solenoid indefinitely'',
      ''    close                - Close solenoid'',
      ''    timed [seconds]      - Open for specified duration'',
      ''    state                - Check current solenoid state'',
      [],
      ''  Automatic Irrigation:'',
      ''    auto_irrigation <min> <max> - Enable auto mode with thresholds + start monitoring'',
      ''    auto_on              - Enable automatic irrigation + start monitoring'',
      ''    auto_off             - Disable automatic irrigation + stop monitoring'',
      ''    set_thresholds <min> <max> - Set thresholds only'',
      ''    status               - Show complete system status'',
      ''    moisture_check       - Check current moisture reading from ESP32'',
      [],
      ''Examples:'',
      ''  python remote_solenoid.py timed 300          # Open for 5 minutes'',
      ''  python remote_solenoid.py auto_irrigation 50 75  # Auto mode: <50% open, >75% close'',
      ''  python remote_solenoid.py set_thresholds 25 55  # Update thresholds only'',
      ''  python remote_solenoid.py auto_on            # Enable auto irrigation'',
      ''  python remote_solenoid.py status             # Show system status'',
      ''  python remote_solenoid.py moisture_check     # Check current moisture from ESP32'']"

definition print_usage :: "client \<Rightarrow> client" where
  "print_usage c = pr [usage_message] c"

text \<open>
  The body of the \<^verbatim>\<open>try\<close> block of \<^verbatim>\<open>send_command\<close> yields either the exception that
  leaves it or the value of the local \<^verbatim>\<open>response\<close> (\<open>None\<close> for the commands that keep
  it unset). \<open>call\<close> performs one request: a transport failure raises.
\<close>

type_synonym branch = "(exc + response option) \<times> client"

definition call :: "server \<Rightarrow> request \<Rightarrow> client \<Rightarrow> (response \<Rightarrow> client \<Rightarrow> branch) \<Rightarrow> branch" where
  "call srv r c k =
     (case http srv r c of
        (Inl e, c1) \<Rightarrow> (Inl (RequestException e), c1)
      | (Inr resp, c1) \<Rightarrow> k resp c1)"

definition usage_exit :: "string list \<Rightarrow> client \<Rightarrow> branch" where
  \<comment> \<open>print the usage error, then \<^verbatim>\<open>sys.exit(1)\<close>\<close>
  "usage_exit ls c = (Inl (SystemExit 1), pr ls c)"

definition try_body :: "server \<Rightarrow> string list \<Rightarrow> string \<Rightarrow> client \<Rightarrow> branch" where
  "try_body srv argv command c =
    (if command = ''open'' then
       (if length argv > 2
        then usage_exit [crlf @ ''Error: Too many arguments.'' @ crlf @ ''Format: python remote_solenoid.py open'' @ crlf] c
        else call srv (req POST ''/open'') c
               (\<lambda>r c1. (Inr (Some r), pr [''Triggering solenoid'', ''Response: '' @ rtext r] c1)))
     else if command = ''close'' then
       (if length argv > 2
        then usage_exit [crlf @ ''Error: Too many arguments.'' @ crlf @ ''Format: python remote_solenoid.py close'' @ crlf] c
        else call srv (req POST ''/close'') c
               (\<lambda>r c1. (Inr (Some r), pr [''Triggering solenoid'', ''Response: '' @ rtext r] c1)))
     else if command = ''timed'' then
       (if length argv < 3
        then usage_exit [''Error: Time duration not set.'' @ crlf @ ''Format: python remote_solenoid.py timed [seconds].'' @ crlf] c
        else if length argv > 3
        then usage_exit [''Error: Too many arguments.'' @ crlf @ ''Format: python remote_solenoid.py timed [seconds].'' @ crlf] c
        else call srv ((req POST ''/timed'')\<lparr>params := [(''time'', argv ! 2)]\<rparr>) c
               (\<lambda>r c1. (Inr (Some r),
                  pr [''Turning on solenoid for '' @ argv ! 2 @ '' seconds.'', ''Response: '' @ rtext r] c1)))
     else if command = ''state'' then
       (if length argv > 2
        then usage_exit [crlf @ ''Error: Too many arguments.'' @ crlf @ ''Format: python remote_solenoid.py state'' @ crlf] c
        else call srv (req GET ''/state'') c
               (\<lambda>r c1. (Inr (Some r), pr [''Current state: '' @ rtext r] c1)))
     else if command = ''set_thresholds'' then
       (if length argv \<noteq> 4
        then usage_exit [''Error: Usage: python remote_solenoid.py set_thresholds <min> <max>'',
                         ''Example: python remote_solenoid.py set_thresholds 30 60''] c
        else call srv ((req POST ''/irrigation_setup'')\<lparr>data := [(''min'', argv ! 2), (''max'', argv ! 3)]\<rparr>) c
               (\<lambda>r c1. (Inr (Some r),
                  pr [''Set thresholds: Min='' @ argv ! 2 @ ''%, Max='' @ argv ! 3 @ ''%'',
                      ''Response: '' @ rtext r] c1)))
     else if command = ''auto_irrigation'' then
       (if length argv \<noteq> 4
        then usage_exit [''Error: Usage: python remote_solenoid.py auto_irrigation <min> <max>'',
                         ''Example: python remote_solenoid.py auto_irrigation 30 60''] c
        else call srv ((req POST ''/irrigation_setup'')
                         \<lparr>data := [(''min'', argv ! 2), (''max'', argv ! 3), (''enable'', ''true'')]\<rparr>) c
               (\<lambda>r c1. (Inr (Some r),
                  start_auto_monitoring 30
                    (pr [''Auto irrigation enabled: Moisture < '' @ argv ! 2 @ ''% '' @ arrow @ '' OPEN, > ''
                           @ argv ! 3 @ ''% '' @ arrow @ '' CLOSE'',
                         ''Response: '' @ rtext r] c1))))
     else if command = ''auto_on'' then
       call srv ((req POST ''/auto'')\<lparr>data := [(''enable'', ''true'')]\<rparr>) c
         (\<lambda>r c1.
            case get_system_status srv (pr [''Automatic irrigation enabled'', ''Response: '' @ rtext r] c1) of
              (status, c2) \<Rightarrow>
                (case print_status_summary status c2 of
                   (Some e, c3) \<Rightarrow> (Inl e, c3)
                 | (None, c3) \<Rightarrow> (Inr (Some r), start_auto_monitoring 30 c3)))
     else if command = ''auto_off'' then
       call srv ((req POST ''/auto'')\<lparr>data := [(''enable'', ''false'')]\<rparr>) c
         (\<lambda>r c1. (Inr (Some r),
            stop_auto_monitoring (pr [''Automatic irrigation disabled'', ''Response: '' @ rtext r] c1)))
     else if command = ''status'' then
       (case get_system_status srv c of
          (status, c1) \<Rightarrow>
            (case status of
               None \<Rightarrow> (Inr None, pr [''Could not fetch system status''] c1)
             | Some d \<Rightarrow>
                 if d = [] then (Inr None, pr [''Could not fetch system status''] c1)
                 else (Inr None,
                   pr [''System Status:'',
                       ''  Solenoid State: '' @ py_str (dict_get d ''solenoid_state'' (JStr ''unknown'')),
                       ''  Auto Irrigation: '' @
                          (if truthy (dict_get d ''auto_irrigation_enabled'' (JBool False))
                           then ''Enabled'' else ''Disabled''),
                       ''  Irrigation Thresholds: '' @ py_str (dict_get d ''min_threshold'' (JStr ''N/A''))
                          @ ''% - '' @ py_str (dict_get d ''max_threshold'' (JStr ''N/A'')) @ ''%'',
                       ''  Check Interval: '' @ py_str (dict_get d ''check_interval_seconds'' (JStr ''N/A''))
                          @ '' seconds'',
                       ''  Current Moisture: '' @ py_str (dict_get d ''current_moisture'' (JStr ''N/A'')) @ ''%'',
                       ''  Monitoring Active: '' @ (if auto_monitoring_active c1 then ''Yes'' else ''No'')] c1)))
     else if command = ''moisture_check'' then
       (case get_system_status srv c of
          (status, c1) \<Rightarrow>
            (case status of
               None \<Rightarrow> (Inr None, pr [''Could not fetch moisture reading from ESP32''] c1)
             | Some d \<Rightarrow>
                 (case map_of d ''current_moisture'' of
                    None \<Rightarrow> (Inr None, pr [''Could not fetch moisture reading from ESP32''] c1)
                  | Some moisture \<Rightarrow>
                      (case print_status_summary status
                              (pr [''Current moisture from ESP32: '' @ py_str moisture @ ''%''] c1) of
                         (Some e, c2) \<Rightarrow> (Inl e, c2)
                       | (None, c2) \<Rightarrow> (Inr None, c2)))))
     else (Inl (SystemExit 1), print_usage (pr [''Error: Unknown command '' @ [CHR 0x27] @ command @ [CHR 0x27]] c)))"

definition check_response :: "response \<Rightarrow> client \<Rightarrow> client" where
  \<comment> \<open>the status check after the dispatch, for the commands that set \<^verbatim>\<open>response\<close>\<close>
  "check_response r c =
     (if status_code r \<noteq> 200
      then pr [''Error: Server responded with status '' @ show_int (status_code r), ''Response: '' @ rtext r] c
      else pr [''Response: '' @ rtext r] c)"

datatype outcome = Returns | Exits int

text \<open>
  \<^verbatim>\<open>send_command\<close>: the two \<^verbatim>\<open>except\<close> clauses catch every \<^verbatim>\<open>Exception\<close>;
  \<^verbatim>\<open>SystemExit\<close> is not one, so \<^verbatim>\<open>sys.exit(1)\<close> ends the process.
\<close>

definition send_command :: "server \<Rightarrow> string list \<Rightarrow> string \<Rightarrow> client \<Rightarrow> outcome \<times> client" where
  "send_command srv argv command c =
     (case try_body srv argv command c of
        (Inr None, c1) \<Rightarrow> (Returns, c1)
      | (Inr (Some r), c1) \<Rightarrow> (Returns, check_response r c1)
      | (Inl (SystemExit n), c1) \<Rightarrow> (Exits n, c1)
      | (Inl (RequestException e), c1) \<Rightarrow>
          (Returns, pr [''Error: Could not connect to ESP32 at '' @ ENTS_IP, ''Details: '' @ e] c1)
      | (Inl (OtherException e), c1) \<Rightarrow> (Returns, pr [''Unexpected error: '' @ e] c1))"

definition main :: "server \<Rightarrow> string list \<Rightarrow> outcome \<times> client" where
  \<comment> \<open>the script body up to the wait for the poller: \<open>argv\<close> is \<^verbatim>\<open>sys.argv\<close>\<close>
  "main srv argv =
     (if length argv < 2
      then (Exits 1, print_usage (pr [''Error: No solenoid command received.''] client0))
      else send_command srv argv (argv ! 1) client0)"

subsection \<open>The status poller\<close>

text \<open>
  \<^verbatim>\<open>monitor_status_continuously\<close> runs in its own thread and shares only the flag
  \<^verbatim>\<open>auto_monitoring_active\<close> with the main thread, so it is a step function over the
  places where the thread can be when the main thread writes the flag:
  \<^item> \<open>Loop_test\<close>: at the test of \<^verbatim>\<open>while auto_monitoring_active\<close>;
  \<^item> \<open>Cycle\<close>: past the test, with \<^verbatim>\<open>cycle_count\<close> incremented, in the \<^verbatim>\<open>try\<close> block that
    fetches the status and prints the line or summary of the cycle;
  \<^item> \<open>Sleep_test i\<close>: at the head of \<^verbatim>\<open>for i in range(check_interval)\<close>;
  \<^item> \<open>Sleeping i\<close>: in \<^verbatim>\<open>time.sleep(1)\<close> of iteration \<open>i\<close>;
  \<^item> \<open>Finished\<close>: after the final message, the thread is dead.
  Each step reads the flag at most once; the value it reads and the result of the fetch
  are the inputs of the step.
\<close>

datatype pc = Loop_test | Cycle | Sleep_test nat | Sleeping nat | Finished

datatype pevent =
    Note string            \<comment> \<open>the start and stop messages of the thread\<close>
  | Printed "string list"  \<comment> \<open>the status output of one cycle\<close>
  | Slept                  \<comment> \<open>one completed \<^verbatim>\<open>time.sleep(1)\<close>\<close>

record poller =
  pc :: pc
  cycle_count :: nat
  plog :: "pevent list"

definition poller_start :: "nat \<Rightarrow> poller" where
  "poller_start check_interval =
     \<lparr>pc = Loop_test, cycle_count = 0,
      plog = [Note (''Starting continuous status monitoring (interval: '' @ show_nat check_interval @ ''s)'')]\<rparr>"

definition status_print_interval :: nat where
  "status_print_interval = 5"

definition cycle_lines :: "bool \<Rightarrow> nat \<Rightarrow> jdict option \<Rightarrow> string list" where
  \<comment> \<open>the body of the \<^verbatim>\<open>try\<close> block with its \<^verbatim>\<open>except Exception\<close> handler\<close>
  "cycle_lines active n status =
     (let tag = ''Cycle '' @ show_nat n @ '': ''
      in case status of
           None \<Rightarrow> [tag @ ''Could not fetch system status'']
         | Some d \<Rightarrow>
             (if d = [] then [tag @ ''Could not fetch system status'']
              else if n mod status_print_interval = 0 then
                (case status_lines active status of
                   (ls, None) \<Rightarrow> ls
                 | (ls, Some (OtherException m)) \<Rightarrow> ls @ [tag @ ''Error - '' @ m]
                 | (ls, Some _) \<Rightarrow> ls)
              else
                (case upper_of (dict_get d ''solenoid_state'' (JStr ''unknown'')) of
                   None \<Rightarrow> [tag @ ''Error - '' @ no_upper]
                 | Some u \<Rightarrow>
                     [tag @ ''Moisture='' @ py_str (dict_get d ''current_moisture'' (JStr ''N/A''))
                        @ ''%, Solenoid='' @ u])))"

definition poll_step :: "nat \<Rightarrow> bool \<times> jdict option \<Rightarrow> poller \<Rightarrow> poller" where
  "poll_step check_interval obs p =
     (case obs of (active, status) \<Rightarrow>
       (case pc p of
          Loop_test \<Rightarrow>
            (if active then p\<lparr>pc := Cycle, cycle_count := cycle_count p + 1\<rparr>
             else p\<lparr>pc := Finished, plog := plog p @ [Note ''Status monitoring stopped'']\<rparr>)
        | Cycle \<Rightarrow>
            p\<lparr>pc := Sleep_test 0, plog := plog p @ [Printed (cycle_lines active (cycle_count p) status)]\<rparr>
        | Sleep_test i \<Rightarrow>
            (if i < check_interval
             then (if \<not> active then p\<lparr>pc := Loop_test\<rparr> else p\<lparr>pc := Sleeping i\<rparr>)
             else p\<lparr>pc := Loop_test\<rparr>)
        | Sleeping i \<Rightarrow> p\<lparr>pc := Sleep_test (Suc i), plog := plog p @ [Slept]\<rparr>
        | Finished \<Rightarrow> p))"

fun poll_run :: "nat \<Rightarrow> (bool \<times> jdict option) list \<Rightarrow> poller \<Rightarrow> poller" where
  "poll_run check_interval [] p = p"
| "poll_run check_interval (obs # rest) p = poll_run check_interval rest (poll_step check_interval obs p)"

fun is_status_print :: "pevent \<Rightarrow> bool" where
  "is_status_print (Printed ls) = True"
| "is_status_print e = False"

definition status_prints :: "poller \<Rightarrow> nat" where
  "status_prints p = length (filter is_status_print (plog p))"

definition sleeps :: "poller \<Rightarrow> nat" where
  "sleeps p = length (filter (\<lambda>e. e = Slept) (plog p))"

text \<open>
  The main thread and the environment act on the process state: a call of
  \<^verbatim>\<open>start_auto_monitoring\<close>, a call of \<^verbatim>\<open>stop_auto_monitoring\<close>, or a thread that
  comes to its end (at any time: the model does not restrict when).
\<close>

datatype act = Start nat | Stop | Thread_ends nat

fun apply_act :: "act \<Rightarrow> client \<Rightarrow> client" where
  "apply_act (Start check_interval) c = start_auto_monitoring check_interval c"
| "apply_act Stop c = stop_auto_monitoring c"
| "apply_act (Thread_ends t) c = c\<lparr>alive := removeAll t (alive c)\<rparr>"

fun run_acts :: "act list \<Rightarrow> client \<Rightarrow> client" where
  "run_acts [] c = c"
| "run_acts (a # as) c = run_acts as (apply_act a c)"

section \<open>The sensor data client (demoPullRequests.py)\<close>

subsection \<open>DirtVizClient\<close>

definition DirtViz_BASE_URL :: string where
  \<comment> \<open>\<^verbatim>\<open>DirtVizClient.BASE_URL\<close>\<close>
  "DirtViz_BASE_URL = ''https://dirtviz.jlab.ucsc.edu/api/''"

text \<open>
  The sensor API answers with a JSON array of records. An instant is a number of seconds
  since 0001-01-01 00:00:00; \<open>gmt\<close> stands for \<^verbatim>\<open>astimezone(pytz.UTC)\<close> followed by
  \<^verbatim>\<open>strftime("%a, %d %b %Y %H:%M:%S GMT")\<close>.
\<close>

record api_response =
  api_status :: int
  api_text :: string
  api_json :: "jdict list option"

type_synonym api_server = "request \<Rightarrow> string + api_response"

definition sensor_request :: "(int \<Rightarrow> string) \<Rightarrow> string \<Rightarrow> string \<Rightarrow> int \<Rightarrow> int option \<Rightarrow> int option \<Rightarrow> request" where
  \<comment> \<open>the arguments of \<^verbatim>\<open>self.session.get\<close> in \<^verbatim>\<open>get_sensor_data\<close>: no \<^verbatim>\<open>timeout\<close> is passed\<close>
  "sensor_request gmt name measurement cellId start end_time =
     \<lparr>meth = GET,
      url = DirtViz_BASE_URL @ ''sensor/?name='' @ name @ ''&measurement='' @ measurement
              @ ''&cellId='' @ show_int cellId,
      params = (case (start, end_time) of
                  (Some s, Some e) \<Rightarrow> [(''startTime'', gmt s), (''endTime'', gmt e)]
                | _ \<Rightarrow> []),
      data = [],
      timeout = None\<rparr>"

definition http_error_message :: "api_response \<Rightarrow> string" where
  \<comment> \<open>the text of the HTTPError (reason phrase and URL left out)\<close>
  "http_error_message r =
     show_int (api_status r) @ (if api_status r < 500 then '' Client Error'' else '' Server Error'')"

definition raise_for_status :: "api_response \<Rightarrow> bool" where
  \<comment> \<open>true when \<^verbatim>\<open>response.raise_for_status()\<close> raises: a status from 400 to 599\<close>
  "raise_for_status r = (400 \<le> api_status r \<and> api_status r < 600)"

definition get_sensor_data ::
  "api_server \<Rightarrow> (int \<Rightarrow> string) \<Rightarrow> string \<Rightarrow> string \<Rightarrow> int \<Rightarrow> int option \<Rightarrow> int option
     \<Rightarrow> (exc + jdict list) \<times> request list" where
  \<comment> \<open>the result or the exception that propagates, and the requests sent\<close>
  "get_sensor_data srv gmt name measurement cellId start end_time =
     (let r = sensor_request gmt name measurement cellId start end_time
      in (case srv r of
            Inl e \<Rightarrow> Inl (RequestException e)
          | Inr resp \<Rightarrow>
              if raise_for_status resp then Inl (RequestException (http_error_message resp))
              else (case api_json resp of
                      None \<Rightarrow> Inl (RequestException ''JSONDecodeError'')
                    | Some rows \<Rightarrow> Inr rows),
          [r]))"





definition stream_request :: "(int \<Rightarrow> string) \<Rightarrow> int \<Rightarrow> int \<Rightarrow> int \<Rightarrow> request" where
  "stream_request gmt cell_id start_time end_time =
     \<lparr>meth = GET,
      url = DirtViz_BASE_URL @ ''sensor/?name=sen0308&measurement=humidity&cellId='' @ show_int cell_id,
      params = [(''startTime'', gmt start_time), (''endTime'', gmt end_time), (''stream'', ''true'')],
      data = [],
      timeout = Some 15\<rparr>"



subsection \<open>Custom date entry\<close>

definition is_space :: "char \<Rightarrow> bool" where
  \<comment> \<open>the white space that \<^verbatim>\<open>int\<close> skips, among the first 256 code points\<close>
  "is_space c = ((of_char c :: nat) \<in> {9, 10, 11, 12, 13, 28, 29, 30, 31, 32, 133, 160})"

definition is_digit :: "char \<Rightarrow> bool" where
  "is_digit c = ((48::nat) \<le> of_char c \<and> of_char c \<le> (57::nat))"

definition strip :: "string \<Rightarrow> string" where
  "strip s = rev (dropWhile is_space (rev (dropWhile is_space s)))"

fun parse_digits :: "bool \<Rightarrow> nat \<Rightarrow> string \<Rightarrow> nat option" where
  \<comment> \<open>decimal digits, single underscores allowed between two digits\<close>
  "parse_digits prev acc [] = (if prev then Some acc else None)"
| "parse_digits prev acc (c # cs) =
     (if is_digit c then parse_digits True (acc * 10 + (of_char c - 48)) cs
      else if c = CHR ''_'' \<and> prev then parse_digits False acc cs
      else None)"

definition py_int :: "string \<Rightarrow> int option" where
  \<comment> \<open>\<^verbatim>\<open>int(s)\<close>; \<open>None\<close> is ValueError\<close>
  "py_int s =
     (case strip s of
        [] \<Rightarrow> None
      | c # cs \<Rightarrow>
          if c = CHR ''-'' then map_option (\<lambda>n. - int n) (parse_digits False 0 cs)
          else if c = CHR ''+'' then map_option int (parse_digits False 0 cs)
          else map_option int (parse_digits False 0 (c # cs)))"

fun split_on :: "char \<Rightarrow> string \<Rightarrow> string list" where
  \<comment> \<open>\<^verbatim>\<open>s.split(c)\<close>\<close>
  "split_on c [] = [[]]"
| "split_on c (x # xs) =
     (if x = c then [] # split_on c xs
      else (case split_on c xs of [] \<Rightarrow> [[x]] | w # ws \<Rightarrow> (x # w) # ws))"

definition is_leap :: "int \<Rightarrow> bool" where
  "is_leap y = (y mod 4 = 0 \<and> (y mod 100 \<noteq> 0 \<or> y mod 400 = 0))"

definition days_in_month :: "int \<Rightarrow> int \<Rightarrow> int" where
  "days_in_month y m =
     (if m = 2 then (if is_leap y then 29 else 28)
      else if m = 4 \<or> m = 6 \<or> m = 9 \<or> m = 11 then 30 else 31)"

definition datetime_ok :: "int \<Rightarrow> int \<Rightarrow> int \<Rightarrow> bool" where
  \<comment> \<open>\<^verbatim>\<open>datetime(year, month, day, 0, 0, 0)\<close> raises ValueError unless this holds\<close>
  "datetime_ok y m d =
     (1 \<le> y \<and> y \<le> 9999 \<and> 1 \<le> m \<and> m \<le> 12 \<and> 1 \<le> d \<and> d \<le> days_in_month y m)"

datatype date_result =
    Today                \<comment> \<open>empty input: midnight of the current day in Pacific time\<close>
  | Localized int int int  \<comment> \<open>midnight of the given day, localized to Pacific time\<close>
  | EOFError             \<comment> \<open>\<^verbatim>\<open>input\<close> found no further line\<close>

definition values_message :: string where
  "values_message = ''Invalid date values. Please enter a valid date between 2000-2100.''"

definition format_message :: string where
  "format_message = ''Invalid date format. Please use YYYY-MM-DD format (e.g., 2025-08-21).''"

definition say :: "string \<Rightarrow> date_result \<times> string list \<Rightarrow> date_result \<times> string list" where
  "say l r = (fst r, l # snd r)"

fun get_valid_date :: "string list \<Rightarrow> date_result \<times> string list" where
  \<comment> \<open>the lines typed by the user; the result and the messages printed (prompts left out)\<close>
  "get_valid_date [] = (EOFError, [])"
| "get_valid_date (date_input # rest) =
     (if date_input = [] then (Today, [])
      else (case map py_int (split_on CHR ''-'' date_input) of
              [Some year, Some month, Some day] \<Rightarrow>
                if year < 2000 \<or> year > 2100 \<or> month < 1 \<or> month > 12 \<or> day < 1 \<or> day > 31
                then say values_message (get_valid_date rest)
                else if datetime_ok year month day then (Localized year month day, [])
                else say format_message (get_valid_date rest)
            | _ \<Rightarrow> say format_message (get_valid_date rest)))"

subsection \<open>Data frames\<close>

text \<open>
  A pandas DataFrame, as far as the formatter uses one: a number of rows (the length of the
  index) and named columns, each with one cell per row. \<open>DataFrame\<close> is
  \<^verbatim>\<open>pd.DataFrame(data)\<close> for a list of JSON records: the columns are the keys in the
  order of their first appearance, and a record without the key leaves a missing cell.
\<close>

record dataframe =
  nrows :: nat
  cols :: "(string \<times> jval list) list"

definition columns :: "dataframe \<Rightarrow> string list" where
  "columns df = map fst (cols df)"

definition wf_df :: "dataframe \<Rightarrow> bool" where
  \<comment> \<open>every column has one cell per row\<close>
  "wf_df df = list_all (\<lambda>col. length (snd col) = nrows df) (cols df)"

definition first_seen :: "string list \<Rightarrow> string list" where
  "first_seen ks = rev (remdups (rev ks))"

definition DataFrame :: "jdict list \<Rightarrow> dataframe" where
  "DataFrame recs =
     \<lparr>nrows = length recs,
      cols = map (\<lambda>k. (k, map (\<lambda>r. dict_get r k JNull) recs)) (first_seen (concat (map (map fst) recs)))\<rparr>"

definition key_error :: "string \<Rightarrow> exc" where
  "key_error k = OtherException (''KeyError: '' @ k)"

definition column :: "dataframe \<Rightarrow> string \<Rightarrow> exc + jval list" where
  \<comment> \<open>\<^verbatim>\<open>df[name]\<close>\<close>
  "column df k = (case map_of (cols df) k of None \<Rightarrow> Inl (key_error k) | Some xs \<Rightarrow> Inr xs)"

fun select :: "dataframe \<Rightarrow> string list \<Rightarrow> exc + (string \<times> jval list) list" where
  \<comment> \<open>\<^verbatim>\<open>df[[name, ...]]\<close>: the columns of each name in turn, KeyError for a name without one\<close>
  "select df [] = Inr []"
| "select df (k # ks) =
     (case filter (\<lambda>col. fst col = k) (cols df) of
        [] \<Rightarrow> Inl (key_error k)
      | found \<Rightarrow> (case select df ks of Inl e \<Rightarrow> Inl e | Inr more_cols \<Rightarrow> Inr (found @ more_cols)))"

definition rename :: "(string \<times> string) list \<Rightarrow> dataframe \<Rightarrow> dataframe" where
  \<comment> \<open>\<^verbatim>\<open>df.rename(columns=...)\<close>\<close>
  "rename m df =
     df\<lparr>cols := map (\<lambda>col. (case map_of m (fst col) of None \<Rightarrow> fst col | Some k \<Rightarrow> k, snd col)) (cols df)\<rparr>"

subsection \<open>The display formatter\<close>

text \<open>
  What the formatter takes from pandas, cell by cell or column by column:
  \<^item> \<open>pt\<close>: \<^verbatim>\<open>pd.to_datetime\<close>, \<^verbatim>\<open>tz_localize('UTC')\<close>, \<^verbatim>\<open>tz_convert\<close> to Pacific time and
    \<^verbatim>\<open>strftime("%m-%d-%Y %H:%M:%S")\<close> of one timestamp cell, \<open>None\<close> when pandas raises;
  \<^item> \<open>mean_2f\<close> and \<open>max_2f\<close>: \<^verbatim>\<open>mean()\<close> and \<^verbatim>\<open>max()\<close> of a column, formatted with
    \<^verbatim>\<open>:.2f\<close>, \<open>None\<close> when the column is not numeric and pandas raises.
  They are parameters: their floating-point and time-zone arithmetic is not part of the
  repository.
\<close>

record pandas =
  pt :: "jval \<Rightarrow> string option"
  mean_2f :: "jval list \<Rightarrow> string option"
  max_2f :: "jval list \<Rightarrow> string option"

datatype printed =
    Text string        \<comment> \<open>one \<^verbatim>\<open>print\<close> of a line\<close>
  | Grid dataframe     \<comment> \<open>\<^verbatim>\<open>print(tabulate(display_df, ...))\<close>: the frame that is tabulated, rows in its order\<close>

definition bullet :: string where
  \<comment> \<open>the bytes before each key of the summary, as they stand in the source file\<close>
  "bullet = [CHR 0xC3, CHR 0xA2, CHR 0xE2, CHR 0x82, CHR 0xAC, CHR 0xC2, CHR 0xA2]"

definition format_timestamps :: "pandas \<Rightarrow> dataframe \<Rightarrow> exc + dataframe" where
  \<comment> \<open>the block under \<^verbatim>\<open>if "timestamp" in df.columns\<close>: the column moves to the front and is
     converted and reformatted\<close>
  "format_timestamps lib df =
     (case map_of (cols df) ''timestamp'' of
        None \<Rightarrow> Inr df
      | Some ts \<Rightarrow>
          (case those (map (pt lib) ts) of
             None \<Rightarrow> Inl (OtherException ''to_datetime'')
           | Some shown \<Rightarrow>
               Inr (df\<lparr>cols := (''timestamp'', map JStr shown)
                               # filter (\<lambda>col. fst col \<noteq> ''timestamp'') (cols df)\<rparr>)))"

definition data_values :: "dataframe \<Rightarrow> jval list" where
  \<comment> \<open>\<^verbatim>\<open>df['data'] if 'data' in df.columns else pd.Series(dtype=float)\<close>\<close>
  "data_values df = (case map_of (cols df) ''data'' of None \<Rightarrow> [] | Some xs \<Rightarrow> xs)"

definition unit_of :: "dataframe \<Rightarrow> string \<Rightarrow> string" where
  "unit_of df measurement_type =
     (if measurement_type = ''pressure'' then ''kPa''
      else if measurement_type = ''humidity'' then ''%''
      else if measurement_type = ''flow rate'' then ''L/min''
      else (case map_of (cols df) ''unit'' of
              Some (u # us) \<Rightarrow> (if nrows df > 0 then py_str u else ''units'')
            | _ \<Rightarrow> ''units''))"

definition measurement_name :: "string \<Rightarrow> string" where
  "measurement_name measurement_type =
     (if measurement_type = ''pressure'' then ''Pressure''
      else if measurement_type = ''humidity'' then ''Humidity''
      else if measurement_type = ''flow rate'' then ''Flow Rate''
      else capitalize measurement_type)"

definition column_name :: "dataframe \<Rightarrow> string \<Rightarrow> string" where
  "column_name df measurement_type =
     measurement_name measurement_type @ '' ('' @ unit_of df measurement_type @ '')''"

definition time_range :: "dataframe \<Rightarrow> exc + string" where
  "time_range df =
     (if nrows df > 0
      then (case column df ''timestamp'' of
              Inl e \<Rightarrow> Inl e
            | Inr [] \<Rightarrow> Inl (OtherException ''IndexError'')
            | Inr (t # ts) \<Rightarrow> Inr (py_str t @ '' to '' @ py_str (last (t # ts))))
      else Inr ''N/A'')"

definition stat :: "(jval list \<Rightarrow> string option) \<Rightarrow> jval list \<Rightarrow> exc + string" where
  \<comment> \<open>\<^verbatim>\<open>f"{data_values.mean():.2f}" if not data_values.empty else "N/A"\<close>, and the same for max\<close>
  "stat f xs =
     (if xs \<noteq> [] then (case f xs of None \<Rightarrow> Inl (OtherException ''TypeError'') | Some s \<Rightarrow> Inr s)
      else Inr ''N/A'')"

definition stats :: "pandas \<Rightarrow> dataframe \<Rightarrow> int \<Rightarrow> string \<Rightarrow> exc + (string \<times> string) list" where
  \<comment> \<open>the dictionary \<^verbatim>\<open>stats\<close>, its values in the order in which they are computed\<close>
  "stats lib df cell_id measurement_type =
     (case time_range df of
        Inl e \<Rightarrow> Inl e
      | Inr span \<Rightarrow>
          (case stat (mean_2f lib) (data_values df) of
             Inl e \<Rightarrow> Inl e
           | Inr avg \<Rightarrow>
               (case stat (max_2f lib) (data_values df) of
                  Inl e \<Rightarrow> Inl e
                | Inr mx \<Rightarrow>
                    Inr [(''Cell ID'', show_int cell_id),
                         (''Measurement Type'', measurement_name measurement_type),
                         (''Time Range'', span),
                         (''Data Points'', show_nat (nrows df)),
                         (''Avg '' @ column_name df measurement_type, avg),
                         (''Max '' @ column_name df measurement_type, mx)])))"

definition summary_lines :: "int \<Rightarrow> string \<Rightarrow> (string \<times> string) list \<Rightarrow> printed list" where
  "summary_lines cell_id measurement_type st =
     [Text (nl # replicate 70 CHR ''=''),
      Text (center 70 (''CELL '' @ show_int cell_id @ '' '' @ upper (measurement_name measurement_type)
                         @ '' DATA SUMMARY''))]
     @ map (\<lambda>kv. Text (bullet @ '' '' @ ljust 20 (fst kv) @ '': '' @ snd kv)) st
     @ [Text (replicate 70 CHR ''='' @ [nl])]"

record shown =
  raised :: "exc option"
  display :: "printed list"

definition format_data_display :: "pandas \<Rightarrow> dataframe \<Rightarrow> int \<Rightarrow> string \<Rightarrow> shown" where
  "format_data_display lib df0 cell_id measurement_type =
     (case format_timestamps lib df0 of
        Inl e \<Rightarrow> \<lparr>raised = Some e, display = []\<rparr>
      | Inr df \<Rightarrow>
          (case stats lib df cell_id measurement_type of
             Inl e \<Rightarrow> \<lparr>raised = Some e, display = []\<rparr>
           | Inr st \<Rightarrow>
               (let renamed = rename [(''timestamp'', ''Measurement Time (PT)''),
                                      (''data'', column_name df measurement_type)] df;
                    header = summary_lines cell_id measurement_type st;
                    footer = [Text (nl # replicate 80 CHR ''='')]
                in if nrows renamed > 0
                   then (case select renamed [''Measurement Time (PT)'', column_name df measurement_type] of
                           Inl e \<Rightarrow> \<lparr>raised = Some e, display = header @ [Text ''DATA BY TIMESTAMPS:'']\<rparr>
                         | Inr display_cols \<Rightarrow>
                             \<lparr>raised = None,
                              display = header @ [Text ''DATA BY TIMESTAMPS:'',
                                                  Grid (renamed\<lparr>cols := display_cols\<rparr>)] @ footer\<rparr>)
                   else \<lparr>raised = None,
                         display = header @ [Text ''No data available to display''] @ footer\<rparr>)))"

fun grids :: "printed list \<Rightarrow> dataframe list" where
  "grids [] = []"
| "grids (Text l # ps) = grids ps"
| "grids (Grid g # ps) = g # grids ps"

section \<open>Sample inputs\<close>

text \<open>Servers and inputs at which the properties below are evaluated.\<close>

definition server_ok :: server where
  "server_ok r = Inr \<lparr>status_code = 200, rtext = ''OK'', json = None\<rparr>"

definition server_400 :: server where
  "server_400 r = Inr \<lparr>status_code = 400, rtext = ''Bad Request'', json = None\<rparr>"

text \<open>
  The invariant of the process state: no thread is alive, or exactly the thread that
  \<^verbatim>\<open>monitoring_thread\<close> refers to.
\<close>

definition one_thread :: "client \<Rightarrow> bool" where
  "one_thread c =
     (alive c = [] \<or> (case monitoring_thread c of None \<Rightarrow> False | Some t \<Rightarrow> alive c = [t]))"




definition lib_sample :: pandas where
  "lib_sample =
     \<lparr>pt = (\<lambda>v. case v of JStr s \<Rightarrow> Some (''PT '' @ s) | _ \<Rightarrow> None),
      mean_2f = (\<lambda>xs. Some ''1.50''),
      max_2f = (\<lambda>xs. Some ''2.00'')\<rparr>"

text \<open>
  The unit of the column label when the frame has no rows: fixed by the measurement type,
  \<^verbatim>\<open>"units"\<close> for any other type.
\<close>

definition fixed_unit :: "string \<Rightarrow> string" where
  "fixed_unit measurement_type =
     (if measurement_type = ''pressure'' then ''kPa''
      else if measurement_type = ''humidity'' then ''%''
      else if measurement_type = ''flow rate'' then ''L/min''
      else ''units'')"

definition recs_sorted :: "jdict list" where
  "recs_sorted = [[(''timestamp'', JStr ''t1''), (''data'', JNum 1)],
                  [(''timestamp'', JStr ''t22''), (''data'', JNum 2)]]"

definition recs_no_data :: "jdict list" where
  "recs_no_data = [[(''timestamp'', JStr ''t1'')], [(''timestamp'', JStr ''t22'')]]"

definition recs_unit_only :: "jdict list" where
  "recs_unit_only = [[(''unit'', JStr ''kPa'')]]"

definition recs_labelled :: "jdict list" where
  "recs_labelled = [[(''timestamp'', JStr ''t1''), (''Humidity (%)'', JNum 5)]]"

definition grid_sorted :: dataframe where
  "grid_sorted =
     \<lparr>nrows = 2,
      cols = [(''Measurement Time (PT)'', [JStr ''PT t1'', JStr ''PT t22'']),
              (''Humidity (%)'', [JNum 1, JNum 2])]\<rparr>"

definition grid_labelled :: dataframe where
  "grid_labelled =
     \<lparr>nrows = 1,
      cols = [(''Measurement Time (PT)'', [JStr ''PT t1'']), (''Humidity (%)'', [JNum 5])]\<rparr>"

section \<open>Verified properties\<close>

lemmas dispatch_defs =
  send_command_def try_body_def call_def http_def usage_exit_def check_response_def
  get_system_status_def print_status_summary_def status_lines_def
  start_auto_monitoring_def stop_auto_monitoring_def thread_is_alive_def pr_def req_def

subsection \<open>Argument counts of the solenoid commands\<close>

text \<open>
  The commands \<^verbatim>\<open>open\<close>, \<^verbatim>\<open>close\<close>, \<^verbatim>\<open>timed\<close>, \<^verbatim>\<open>state\<close>, \<^verbatim>\<open>set_thresholds\<close> and
  \<^verbatim>\<open>auto_irrigation\<close> test \<^verbatim>\<open>len(sys.argv)\<close> first: with a wrong count they print their
  usage error and exit with code 1, and no request is sent.
\<close>

lemma counted_commands_exit:
  "2 < length argv \<Longrightarrow> fst (send_command srv argv ''open'' c) = Exits 1 \<and> sent (snd (send_command srv argv ''open'' c)) = sent c"
  "2 < length argv \<Longrightarrow> fst (send_command srv argv ''close'' c) = Exits 1 \<and> sent (snd (send_command srv argv ''close'' c)) = sent c"
  "length argv \<noteq> 3 \<Longrightarrow> fst (send_command srv argv ''timed'' c) = Exits 1 \<and> sent (snd (send_command srv argv ''timed'' c)) = sent c"
  "2 < length argv \<Longrightarrow> fst (send_command srv argv ''state'' c) = Exits 1 \<and> sent (snd (send_command srv argv ''state'' c)) = sent c"
  "length argv \<noteq> 4 \<Longrightarrow> fst (send_command srv argv ''set_thresholds'' c) = Exits 1 \<and> sent (snd (send_command srv argv ''set_thresholds'' c)) = sent c"
  "length argv \<noteq> 4 \<Longrightarrow> fst (send_command srv argv ''auto_irrigation'' c) = Exits 1 \<and> sent (snd (send_command srv argv ''auto_irrigation'' c)) = sent c"
  by (simp_all add: send_command_def try_body_def usage_exit_def pr_def)

text \<open>
  Claim C4: for every command of the solenoid client, an invocation with the wrong number of
  positional arguments prints a usage error and exits with a non-zero code without sending
  the HTTP request, \<^verbatim>\<open>auto_on\<close> and \<^verbatim>\<open>auto_off\<close> included.
  The branches of \<^verbatim>\<open>auto_on\<close> and \<^verbatim>\<open>auto_off\<close> have no test of \<^verbatim>\<open>len(sys.argv)\<close>: with a
  surplus argument the request to \<^verbatim>\<open>/auto\<close> is sent and \<^verbatim>\<open>send_command\<close> returns.
\<close>

theorem auto_on_extra_argument_is_sent:
  "fst (main server_ok [''remote_solenoid.py'', ''auto_on'', ''extra'']) = Returns \<and>
   sent (snd (main server_ok [''remote_solenoid.py'', ''auto_on'', ''extra''])) =
     [(req POST ''/auto'')\<lparr>data := [(''enable'', ''true'')]\<rparr>, req GET ''/status''] \<and>
   fst (main server_ok [''remote_solenoid.py'', ''auto_off'', ''extra'']) = Returns \<and>
   sent (snd (main server_ok [''remote_solenoid.py'', ''auto_off'', ''extra''])) =
     [(req POST ''/auto'')\<lparr>data := [(''enable'', ''false'')]\<rparr>]"
  by (simp add: main_def dispatch_defs server_ok_def client0_def)

subsection \<open>The duration of the timed command\<close>

text \<open>
  Claim C9: the \<^verbatim>\<open>timed\<close> command forwards its duration argument verbatim. For any argument
  string \<open>s\<close>, numeric or not, the client sends the POST to \<^verbatim>\<open>/timed\<close> with \<open>s\<close> as the
  \<^verbatim>\<open>time\<close> parameter and returns without exiting; what it prints after the request depends
  on the answer of the server alone, and the error line appears exactly for a status other
  than 200.
\<close>

theorem timed_forwards_argument:
  "fst (send_command srv [prog, ''timed'', s] ''timed'' c) = Returns \<and>
   sent (snd (send_command srv [prog, ''timed'', s] ''timed'' c)) =
     sent c @ [(req POST ''/timed'')\<lparr>params := [(''time'', s)]\<rparr>] \<and>
   out (snd (send_command srv [prog, ''timed'', s] ''timed'' c)) =
     out c @
     (case srv ((req POST ''/timed'')\<lparr>params := [(''time'', s)]\<rparr>) of
        Inl e \<Rightarrow> [''Error: Could not connect to ESP32 at '' @ ENTS_IP, ''Details: '' @ e]
      | Inr r \<Rightarrow>
          [''Turning on solenoid for '' @ s @ '' seconds.'', ''Response: '' @ rtext r] @
          (if status_code r \<noteq> 200
           then [''Error: Server responded with status '' @ show_int (status_code r), ''Response: '' @ rtext r]
           else [''Response: '' @ rtext r]))"
  by (simp add: dispatch_defs split: sum.splits)

theorem timed_forwards_argument_witness:
  "fst (send_command server_400 [''remote_solenoid.py'', ''timed'', ''soon''] ''timed'' client0) = Returns \<and>
   sent (snd (send_command server_400 [''remote_solenoid.py'', ''timed'', ''soon''] ''timed'' client0)) =
     [(req POST ''/timed'')\<lparr>params := [(''time'', ''soon'')]\<rparr>] \<and>
   out (snd (send_command server_400 [''remote_solenoid.py'', ''timed'', ''soon''] ''timed'' client0)) =
     [''Turning on solenoid for soon seconds.'', ''Response: Bad Request'',
      ''Error: Server responded with status 400'', ''Response: Bad Request'']"
  using timed_forwards_argument [of server_400 "''remote_solenoid.py''" "''soon''" client0]
  by (simp add: server_400_def client0_def show_int_def show_nat.simps digit_char_def)

subsection \<open>Request timeouts of the sensor data client\<close>

text \<open>
  Claim C7: every HTTP request of the sensor data client carries an explicit timeout between
  5 and 15 seconds, in \<^verbatim>\<open>get_sensor_data\<close> as in \<^verbatim>\<open>get_sen0308_stream\<close>.
  The request of \<^verbatim>\<open>get_sen0308_stream\<close> carries \<^verbatim>\<open>timeout=15\<close>; the request of
  \<^verbatim>\<open>get_sensor_data\<close> carries none, whatever its arguments.
\<close>

theorem get_sensor_data_sends_without_timeout:
  "map timeout (snd (get_sensor_data srv gmt name measurement cellId start end_time)) = [None] \<and>
   timeout (stream_request gmt cell_id start_time now) = Some 15"
  by (simp add: get_sensor_data_def sensor_request_def stream_request_def Let_def)

subsection \<open>Custom date entry\<close>

text \<open>
  Claim C3, as stated: \<^verbatim>\<open>get_valid_date\<close> accepts any date whose components are within the
  bounds 2000-2100, 1-12 and 1-31, and the input \<^verbatim>\<open>2025-02-30\<close> is returned as a date.
  It is not: the bounds test passes, but \<^verbatim>\<open>datetime(2025, 2, 30, 0, 0, 0)\<close> raises ValueError,
  the handler prints the format message, and the loop asks again and takes the next line.
\<close>

theorem feb_30_is_rejected:
  "get_valid_date [''2025-02-30'', ''2025-03-01''] = (Localized 2025 3 1, [format_message])"
  by code_simp

text \<open>
  Claim C3, amended: a line that splits at the hyphens into three integers is accepted, and
  returned as that day, exactly when the components are within the bounds 2000-2100, 1-12 and
  1-31 and the day exists in that month of that year. Within the bounds but beyond the end of
  the month the format message is printed, outside the bounds the values message, and in both
  cases the next line is read.
\<close>

theorem get_valid_date_accepts_calendar_dates:
  assumes "map py_int (split_on CHR ''-'' s) = [Some y, Some m, Some d]"
  shows "get_valid_date (s # rest) =
           (if 2000 \<le> y \<and> y \<le> 2100 \<and> 1 \<le> m \<and> m \<le> 12 \<and> 1 \<le> d \<and> d \<le> 31
            then (if d \<le> days_in_month y m then (Localized y m d, [])
                  else say format_message (get_valid_date rest))
            else say values_message (get_valid_date rest))"
proof -
  have "s \<noteq> []" using assms by auto
  then show ?thesis using assms by (auto simp: datetime_ok_def)
qed

theorem get_valid_date_accepts_calendar_dates_witness:
  "map py_int (split_on CHR ''-'' ''2024-02-29'') = [Some 2024, Some 2, Some 29] \<and>
   get_valid_date [''2024-02-29''] = (Localized 2024 2 29, [])"
proof -
  have h: "map py_int (split_on CHR ''-'' ''2024-02-29'') = [Some 2024, Some 2, Some 29]"
    by code_simp
  have d: "days_in_month 2024 2 = 29"
    by (simp add: days_in_month_def is_leap_def)
  show ?thesis
    using h get_valid_date_accepts_calendar_dates [OF h, of "[]"] by (simp add: d)
qed

subsection \<open>One monitoring thread\<close>

lemma one_thread_start: "one_thread c \<Longrightarrow> one_thread (start_auto_monitoring n c)"
  by (auto simp: one_thread_def start_auto_monitoring_def thread_is_alive_def pr_def split: option.splits)

lemma one_thread_apply: "one_thread c \<Longrightarrow> one_thread (apply_act a c)"
proof (cases a)
  case (Start n)
  assume "one_thread c"
  then show ?thesis using Start by (simp add: one_thread_start)
next
  case Stop
  assume "one_thread c"
  then show ?thesis using Stop by (auto simp: one_thread_def stop_auto_monitoring_def pr_def split: option.splits)
next
  case (Thread_ends t)
  assume "one_thread c"
  then show ?thesis using Thread_ends by (auto simp: one_thread_def split: option.splits if_splits)
qed

lemma one_thread_run: "one_thread c \<Longrightarrow> one_thread (run_acts acts c)"
  by (induction acts arbitrary: c) (simp_all add: one_thread_apply)

lemma one_thread_client0: "one_thread client0"
  by (simp add: one_thread_def client0_def)

lemma one_thread_alive: "one_thread c \<Longrightarrow> thread_is_alive c = (alive c \<noteq> [])"
  by (auto simp: one_thread_def thread_is_alive_def split: option.splits)

text \<open>
  Claim C1: at most one status-monitoring thread runs at a time. After any sequence of calls
  of \<^verbatim>\<open>start_auto_monitoring\<close> and \<^verbatim>\<open>stop_auto_monitoring\<close>, interleaved with threads
  coming to their end, at most one thread is alive, before and after a further call of
  \<^verbatim>\<open>start_auto_monitoring\<close>. That call, made while a started thread is alive, changes
  nothing in the state but the printed line "Auto monitoring is already running"; made
  while no thread is alive, it sets the flag, starts one thread and prints
  "Auto monitoring started".
\<close>

theorem one_monitoring_thread:
  "(let c = run_acts acts client0; c' = start_auto_monitoring n c
    in length (alive c) \<le> 1 \<and> length (alive c') \<le> 1 \<and>
       (if alive c \<noteq> []
        then c' = c\<lparr>out := out c @ [''Auto monitoring is already running'']\<rparr>
        else c' = c\<lparr>auto_monitoring_active := True,
                    monitoring_thread := Some (length (started c)),
                    started := started c @ [n],
                    alive := [length (started c)],
                    out := out c @ [''Auto monitoring started'']\<rparr>))"
proof -
  define c where "c = run_acts acts client0"
  have inv: "one_thread c"
    unfolding c_def by (rule one_thread_run [OF one_thread_client0])
  have inv': "one_thread (start_auto_monitoring n c)"
    by (rule one_thread_start [OF inv])
  have len: "\<And>x. one_thread x \<Longrightarrow> length (alive x) \<le> 1"
    by (auto simp: one_thread_def split: option.splits)
  have "start_auto_monitoring n c =
          (if alive c \<noteq> [] then c\<lparr>out := out c @ [''Auto monitoring is already running'']\<rparr>
           else c\<lparr>auto_monitoring_active := True,
                    monitoring_thread := Some (length (started c)),
                    started := started c @ [n],
                    alive := [length (started c)],
                    out := out c @ [''Auto monitoring started'']\<rparr>)"
    using one_thread_alive [OF inv] by (simp add: start_auto_monitoring_def pr_def)
  then show ?thesis
    using len [OF inv] len [OF inv'] unfolding c_def [symmetric] Let_def by simp
qed

theorem one_monitoring_thread_witness:
  "alive (run_acts [Start 30, Stop] client0) = [0] \<and>
   start_auto_monitoring 30 (run_acts [Start 30, Stop] client0) =
     (run_acts [Start 30, Stop] client0)
       \<lparr>out := [''Auto monitoring started'', ''Auto monitoring stopping...'',
                ''Auto monitoring is already running'']\<rparr> \<and>
   alive (run_acts [Start 30, Thread_ends 0] client0) = [] \<and>
   alive (start_auto_monitoring 10 (run_acts [Start 30, Thread_ends 0] client0)) = [1]"
  using one_monitoring_thread [of "[Start 30, Stop]" 30]
        one_monitoring_thread [of "[Start 30, Thread_ends 0]" 10]
  by (simp add: Let_def client0_def start_auto_monitoring_def stop_auto_monitoring_def
        thread_is_alive_def pr_def)

subsection \<open>Stopping the poller\<close>


lemma poll_run_finished: "pc p = Finished \<Longrightarrow> poll_run n obs p = p"
  by (induction obs) (simp_all add: poll_step_def split: prod.splits)

lemma three_steps:
  "\<not> a1 \<Longrightarrow> \<not> a2 \<Longrightarrow> \<not> a3 \<Longrightarrow>
   (let q = poll_step n (a3, s3) (poll_step n (a2, s2) (poll_step n (a1, s1) p))
    in pc q = Finished \<and>
       status_prints q = status_prints p + (if pc p = Cycle then 1 else 0) \<and>
       sleeps q = sleeps p + (case pc p of Sleeping i \<Rightarrow> 1 | _ \<Rightarrow> 0))"
  by (cases "pc p") (simp_all add: poll_step_def status_prints_def sleeps_def Let_def)

text \<open>
  Claim C2, as stated: after \<^verbatim>\<open>stop_auto_monitoring\<close> has cleared the flag, the loop prints
  no further status line and exits within one second.
  It can print one: the thread passes the loop test while the flag is set and is in the cycle
  (the status fetch, with its timeout of 5 seconds) when the flag is cleared; the cycle then
  prints its line, since nothing between the loop test and the print reads the flag.
\<close>

theorem status_line_after_stop:
  "status_prints (poll_run 30 [(True, None)] (poller_start 30)) = 0 \<and>
   pc (poll_run 30 [(True, None)] (poller_start 30)) = Cycle \<and>
   plog (poll_run 30 [(False, None)] (poll_run 30 [(True, None)] (poller_start 30))) =
     plog (poll_run 30 [(True, None)] (poller_start 30)) @ [Printed [''Cycle 1: Could not fetch system status'']]"
  by (simp add: poll_step_def poller_start_def status_prints_def cycle_lines_def show_nat.simps digit_char_def)

text \<open>
  Claim C2, amended: \<^verbatim>\<open>stop_auto_monitoring\<close> clears the flag, and a poller that reads a
  cleared flag from then on is finished after at most three further steps, wherever it
  was. It prints one further status output exactly when the flag was cleared during a cycle
  (after the loop test, before the print), and none otherwise; it completes one further
  \<^verbatim>\<open>time.sleep(1)\<close> exactly when it was in that sleep, and none otherwise, so it never
  waits for the rest of the configured interval.
\<close>

theorem stop_ends_poller:
  assumes "list_all (\<lambda>obs. \<not> fst obs) observations" and "3 \<le> length observations"
  shows "\<not> auto_monitoring_active (stop_auto_monitoring c) \<and>
         pc (poll_run n observations p) = Finished \<and>
         status_prints (poll_run n observations p) = status_prints p + (if pc p = Cycle then 1 else 0) \<and>
         sleeps (poll_run n observations p) = sleeps p + (case pc p of Sleeping i \<Rightarrow> 1 | _ \<Rightarrow> 0)"
proof -
  obtain a1 s1 a2 s2 a3 s3 rest where obs: "observations = (a1, s1) # (a2, s2) # (a3, s3) # rest"
    using assms(2) by (cases observations; cases "tl observations"; cases "tl (tl observations)") auto
  have f: "\<not> a1" "\<not> a2" "\<not> a3" using assms(1) obs by simp_all
  define q where "q = poll_step n (a3, s3) (poll_step n (a2, s2) (poll_step n (a1, s1) p))"
  have q: "pc q = Finished \<and>
       status_prints q = status_prints p + (if pc p = Cycle then 1 else 0) \<and>
       sleeps q = sleeps p + (case pc p of Sleeping i \<Rightarrow> 1 | _ \<Rightarrow> 0)"
    using three_steps [OF f, of n s3 s2 s1 p] unfolding q_def Let_def by simp
  have "poll_run n observations p = poll_run n rest q"
    by (simp add: obs q_def)
  then have "poll_run n observations p = q"
    using q by (simp add: poll_run_finished)
  then show ?thesis using q by (simp add: stop_auto_monitoring_def pr_def)
qed

theorem stop_ends_poller_witness:
  "pc (poll_run 30 [(False, None), (False, None), (False, None)]
        (poll_run 30 [(True, None), (True, None), (True, None), (True, None)] (poller_start 30))) = Finished \<and>
   sleeps (poll_run 30 [(False, None), (False, None), (False, None)]
        (poll_run 30 [(True, None), (True, None), (True, None), (True, None)] (poller_start 30))) = 1"
  using stop_ends_poller [of "[(False, None), (False, None), (False, None)]" client0 30
          "poll_run 30 [(True, None), (True, None), (True, None), (True, None)] (poller_start 30)"]
  by (simp add: poll_step_def poller_start_def sleeps_def)

subsection \<open>Failures of the streaming request\<close>




subsection \<open>Formatting an empty sequence of readings\<close>

lemma wf_empty_cols: "wf_df df \<Longrightarrow> nrows df = 0 \<Longrightarrow> map_of (cols df) k = Some xs \<Longrightarrow> xs = []"
  by (auto simp: wf_df_def list_all_iff dest!: map_of_SomeD)

lemma format_timestamps_empty:
  assumes "wf_df df" "nrows df = 0"
  shows "\<exists>df'. format_timestamps lib df = Inr df' \<and> nrows df' = 0 \<and> wf_df df'"
proof (cases "map_of (cols df) ''timestamp''")
  case None
  then show ?thesis using assms by (simp add: format_timestamps_def)
next
  case (Some ts)
  then have "ts = []" using assms wf_empty_cols by blast
  then show ?thesis using assms Some
    by (auto simp: format_timestamps_def wf_df_def list_all_iff)
qed

lemma unit_of_empty: "nrows df = 0 \<Longrightarrow> unit_of df mt = fixed_unit mt"
  by (simp add: unit_of_def fixed_unit_def split: option.splits list.splits)

lemma stats_empty:
  assumes "wf_df df" "nrows df = 0"
  shows "stats lib df cell_id mt =
     Inr [(''Cell ID'', show_int cell_id),
          (''Measurement Type'', measurement_name mt),
          (''Time Range'', ''N/A''),
          (''Data Points'', ''0''),
          (''Avg '' @ measurement_name mt @ '' ('' @ fixed_unit mt @ '')'', ''N/A''),
          (''Max '' @ measurement_name mt @ '' ('' @ fixed_unit mt @ '')'', ''N/A'')]"
proof -
  have d: "data_values df = []"
    using assms wf_empty_cols [of df "''data''"] by (auto simp: data_values_def split: option.splits)
  show ?thesis
    using assms(2) by (simp add: stats_def time_range_def stat_def d column_name_def unit_of_empty
        show_nat.simps digit_char_def)
qed

text \<open>
  Claim C5: for an empty sequence of readings \<^verbatim>\<open>format_data_display\<close> never raises. The
  time range, the mean and the maximum are rendered as "N/A", the number of data points as
  0, and the message "No data available to display" is printed in place of a table.
\<close>

theorem empty_frame_is_displayed:
  assumes "wf_df df" and "nrows df = 0"
  shows "raised (format_data_display lib df cell_id measurement_type) = None \<and>
         display (format_data_display lib df cell_id measurement_type) =
           summary_lines cell_id measurement_type
             [(''Cell ID'', show_int cell_id),
              (''Measurement Type'', measurement_name measurement_type),
              (''Time Range'', ''N/A''),
              (''Data Points'', ''0''),
              (''Avg '' @ measurement_name measurement_type @ '' ('' @ fixed_unit measurement_type @ '')'', ''N/A''),
              (''Max '' @ measurement_name measurement_type @ '' ('' @ fixed_unit measurement_type @ '')'', ''N/A'')]
           @ [Text ''No data available to display'', Text (nl # replicate 80 CHR ''='')] \<and>
         grids (display (format_data_display lib df cell_id measurement_type)) = []"
proof -
  obtain df' where f: "format_timestamps lib df = Inr df'" and n: "nrows df' = 0" and w: "wf_df df'"
    using format_timestamps_empty [OF assms] by blast
  have g: "grids (summary_lines cell_id measurement_type st) = []" for st
    by (induction st) (simp_all add: summary_lines_def)
  have ga: "grids (xs @ ys) = grids xs @ grids ys" for xs ys
    by (induction xs rule: grids.induct) simp_all
  show ?thesis
    by (simp add: format_data_display_def f stats_empty [OF w n] n rename_def Let_def g ga)
qed


theorem empty_frame_is_displayed_witness:
  "wf_df (DataFrame []) \<and> nrows (DataFrame []) = 0 \<and>
   raised (format_data_display lib_sample (DataFrame []) 1448 ''humidity'') = None \<and>
   grids (display (format_data_display lib_sample (DataFrame []) 1448 ''humidity'')) = []"
proof -
  have h: "wf_df (DataFrame [])" "nrows (DataFrame []) = 0"
    by (simp_all add: DataFrame_def wf_df_def first_seen_def)
  show ?thesis
    using h empty_frame_is_displayed [OF h, of lib_sample 1448 "''humidity''"] by blast
qed

subsection \<open>Row order of the table\<close>

lemma those_map_Some: "those (map f xs) = Some ys \<Longrightarrow> map f xs = map Some ys"
  by (induction xs arbitrary: ys) (auto split: option.splits)

lemma sorted_wrt_those:
  assumes "map f xs = map Some ys" and "sorted_wrt R xs"
      and "\<And>a b x y. R a b \<Longrightarrow> f a = Some x \<Longrightarrow> f b = Some y \<Longrightarrow> R' x y"
  shows "sorted_wrt R' ys"
proof -
  have len: "length xs = length ys" using assms(1) by (metis length_map)
  have nth: "f (xs ! i) = Some (ys ! i)" if "i < length xs" for i
    using assms(1) that len by (metis nth_map)
  show ?thesis
    unfolding sorted_wrt_iff_nth_less
  proof (intro allI impI)
    fix i j assume ij: "i < j" "j < length ys"
    then have "R (xs ! i) (xs ! j)"
      using assms(2) len by (simp add: sorted_wrt_iff_nth_less)
    then show "R' (ys ! i) (ys ! j)"
      using assms(3) nth ij len by simp
  qed
qed

lemma no_grid_in_summary: "Grid g \<notin> set (summary_lines cell_id mt st)"
  by (auto simp: summary_lines_def)

lemma format_timestamps_cols:
  assumes "map_of (cols df) ''timestamp'' = Some ts" and "format_timestamps lib df = Inr df'"
  shows "\<exists>shown. those (map (pt lib) ts) = Some shown \<and> nrows df' = nrows df \<and>
           cols df' = (''timestamp'', map JStr shown) # filter (\<lambda>col. fst col \<noteq> ''timestamp'') (cols df)"
  using assms by (auto simp: format_timestamps_def split: option.splits)

text \<open>
  Claim C6: \<^verbatim>\<open>format_data_display\<close> preserves the order of its input rows. Whenever a table
  is printed for a frame with a timestamp column, the first column of the table holds the
  converted and reformatted timestamps position by position, row \<open>i\<close> of the table being
  the conversion of row \<open>i\<close> of the input; so for any order that the conversion respects,
  timestamps delivered in non-decreasing order are listed in non-decreasing order. Nothing
  is sorted again.
\<close>

theorem table_keeps_row_order:
  assumes "map_of (cols df) ''timestamp'' = Some ts"
      and "Grid g \<in> set (display (format_data_display lib df cell_id measurement_type))"
  shows "\<exists>shown. map (pt lib) ts = map Some shown \<and>
           hd (cols g) = (''Measurement Time (PT)'', map JStr shown) \<and>
           (\<forall>R R'. sorted_wrt R ts \<longrightarrow>
                   (\<forall>a b x y. R a b \<longrightarrow> pt lib a = Some x \<longrightarrow> pt lib b = Some y \<longrightarrow> R' x y) \<longrightarrow>
                   sorted_wrt R' shown)"
proof -
  let ?r = "format_data_display lib df cell_id measurement_type"
  obtain df' where f: "format_timestamps lib df = Inr df'"
    using assms(2) by (cases "format_timestamps lib df") (auto simp: format_data_display_def)
  obtain st where s: "stats lib df' cell_id measurement_type = Inr st"
    using assms(2) f by (cases "stats lib df' cell_id measurement_type") (auto simp: format_data_display_def)
  obtain shown where sh: "those (map (pt lib) ts) = Some shown"
    and c: "cols df' = (''timestamp'', map JStr shown) # filter (\<lambda>col. fst col \<noteq> ''timestamp'') (cols df)"
    using format_timestamps_cols [OF assms(1) f] by blast
  let ?ren = "rename [(''timestamp'', ''Measurement Time (PT)''),
                      (''data'', column_name df' measurement_type)] df'"
  let ?sel = "select ?ren [''Measurement Time (PT)'', column_name df' measurement_type]"
  have hdren: "\<exists>others. cols ?ren = (''Measurement Time (PT)'', map JStr shown) # others"
    by (simp add: rename_def c)
  from assms(2) f s obtain dc where sel: "?sel = Inr dc" and g: "g = ?ren\<lparr>cols := dc\<rparr>"
    by (auto simp: format_data_display_def Let_def no_grid_in_summary split: if_splits sum.splits)
  from hdren obtain others where o: "cols ?ren = (''Measurement Time (PT)'', map JStr shown) # others"
    by blast
  have "\<exists>tl'. dc = (''Measurement Time (PT)'', map JStr shown) # tl'"
    using sel unfolding select.simps o by (auto split: sum.splits list.splits)
  then have h: "hd (cols g) = (''Measurement Time (PT)'', map JStr shown)"
    using g by auto
  have m: "map (pt lib) ts = map Some shown"
    by (rule those_map_Some [OF sh])
  have "sorted_wrt R' shown"
    if "sorted_wrt R ts" "\<forall>a b x y. R a b \<longrightarrow> pt lib a = Some x \<longrightarrow> pt lib b = Some y \<longrightarrow> R' x y"
    for R R'
    using sorted_wrt_those [OF m that(1), of R'] that(2) by blast
  then show ?thesis using m h by blast
qed


theorem table_keeps_row_order_witness:
  "map_of (cols (DataFrame recs_sorted)) ''timestamp'' = Some [JStr ''t1'', JStr ''t22''] \<and>
   Grid grid_sorted \<in> set (display (format_data_display lib_sample (DataFrame recs_sorted) 1448 ''humidity'')) \<and>
   (\<exists>shown. hd (cols grid_sorted) = (''Measurement Time (PT)'', map JStr shown) \<and>
            sorted_wrt (\<lambda>x y. length x \<le> length y) shown)"
proof -
  have h1: "map_of (cols (DataFrame recs_sorted)) ''timestamp'' = Some [JStr ''t1'', JStr ''t22'']"
    by code_simp
  have h2: "Grid grid_sorted \<in> set (display (format_data_display lib_sample (DataFrame recs_sorted) 1448 ''humidity''))"
    by code_simp
  obtain shown where hd: "hd (cols grid_sorted) = (''Measurement Time (PT)'', map JStr shown)"
    and mono: "\<forall>R R'. sorted_wrt R [JStr ''t1'', JStr ''t22''] \<longrightarrow>
                 (\<forall>a b x y. R a b \<longrightarrow> pt lib_sample a = Some x \<longrightarrow> pt lib_sample b = Some y \<longrightarrow> R' x y) \<longrightarrow>
                 sorted_wrt R' shown"
    using table_keeps_row_order [OF h1 h2] by blast
  have s: "sorted_wrt (\<lambda>a b. length (py_str a) \<le> length (py_str b)) [JStr ''t1'', JStr ''t22'']"
    by (simp add: py_str_def)
  have m: "\<forall>a b x y. length (py_str a) \<le> length (py_str b) \<longrightarrow> pt lib_sample a = Some x \<longrightarrow>
             pt lib_sample b = Some y \<longrightarrow> length x \<le> length y"
    by (auto simp: lib_sample_def py_str_def split: jval.splits)
  have "sorted_wrt (\<lambda>x y. length x \<le> length y) shown"
    by (rule mono [rule_format, OF s]) (use m in blast)
  then have "hd (cols grid_sorted) = (''Measurement Time (PT)'', map JStr shown) \<and>
             sorted_wrt (\<lambda>x y. length x \<le> length y) shown"
    using hd by simp
  then have "\<exists>shown. hd (cols grid_sorted) = (''Measurement Time (PT)'', map JStr shown) \<and>
                    sorted_wrt (\<lambda>x y. length x \<le> length y) shown" ..
  then show ?thesis using h1 h2 by (intro conjI)
qed

subsection \<open>Readings without a data field\<close>

lemma lower_char_not_T: "lower_char x \<noteq> CHR ''T''"
proof
  assume a: "lower_char x = CHR ''T''"
  then have "(of_char (lower_char x) :: nat) = 84" by simp
  then show False
    by (auto simp: lower_char_def split: if_splits)
qed

lemma capitalize_nth: "0 < i \<Longrightarrow> i < length (capitalize s) \<Longrightarrow> capitalize s ! i \<noteq> CHR ''T''"
  by (cases s; cases i) (auto simp: capitalize_def lower_char_not_T)

lemma measurement_name_nth: "12 < length (measurement_name mt) \<Longrightarrow> measurement_name mt ! 12 \<noteq> CHR ''T''"
  by (auto simp: measurement_name_def capitalize_nth split: if_splits)

lemma no_early_bracket:
  assumes "k \<le> 12" and "''Measurement Time (PT)'' ! k = CHR '' ''"
  shows "''Measurement Time (PT)'' ! Suc k \<noteq> CHR ''(''"
proof -
  have "k = 0 \<or> k = 1 \<or> k = 2 \<or> k = 3 \<or> k = 4 \<or> k = 5 \<or> k = 6 \<or> k = 7 \<or> k = 8 \<or>
        k = 9 \<or> k = 10 \<or> k = 11 \<or> k = 12"
    using assms(1) by arith
  then show ?thesis using assms(2) by auto
qed

lemma label_not_time_label: "measurement_name mt @ '' ('' @ u @ '')'' \<noteq> ''Measurement Time (PT)''"
proof
  assume eq: "measurement_name mt @ '' ('' @ u @ '')'' = ''Measurement Time (PT)''"
  let ?n = "measurement_name mt"
  show False
  proof (cases "12 < length ?n")
    case True
    then have "(?n @ '' ('' @ u @ '')'') ! 12 = ?n ! 12" by (simp add: nth_append)
    then have "''Measurement Time (PT)'' ! 12 = ?n ! 12" unfolding eq .
    then have "?n ! 12 = CHR ''T''" by simp
    then show False using measurement_name_nth [OF True] by simp
  next
    case False
    then have k: "length ?n \<le> 12" by simp
    have a: "(?n @ '' ('' @ u @ '')'') ! length ?n = CHR '' ''" by (simp add: nth_append)
    have b: "(?n @ '' ('' @ u @ '')'') ! Suc (length ?n) = CHR ''(''" by (simp add: nth_append)
    show False using no_early_bracket [OF k] a b unfolding eq by simp
  qed
qed

lemma map_of_filter_other:
  "k \<noteq> t \<Longrightarrow> map_of (filter (\<lambda>col. fst col \<noteq> t) xs) k = map_of xs k"
  by (induction xs) auto

lemma format_timestamps_ok:
  assumes "map_of (cols df) ''timestamp'' = Some ts" and "those (map (pt lib) ts) = Some shown"
  shows "format_timestamps lib df =
           Inr (df\<lparr>cols := (''timestamp'', map JStr shown)
                            # filter (\<lambda>col. fst col \<noteq> ''timestamp'') (cols df)\<rparr>)"
  using assms by (simp add: format_timestamps_def)

lemma select_missing:
  assumes "filter (\<lambda>col. fst col = a) (cols df) \<noteq> []" and "filter (\<lambda>col. fst col = b) (cols df) = []"
  shows "select df [a, b] = Inl (key_error b)"
  using assms by (simp split: list.splits)

lemma grids_append: "grids (xs @ ys) = grids xs @ grids ys"
  by (induction xs rule: grids.induct) simp_all

lemma grids_summary: "grids (summary_lines cell_id mt st) = []"
  by (induction st) (simp_all add: summary_lines_def grids_append)

text \<open>
  Claim C10, as stated: for every non-empty sequence of readings whose records lack a
  \<^verbatim>\<open>data\<close> field, the summary is rendered with "N/A" and then the table rendering raises.
  Two sequences show otherwise. Records that lack \<^verbatim>\<open>timestamp\<close> as well: the time range
  of the summary raises KeyError before anything is printed. Records with a field that
  already bears the label of the value column: the selection of the display columns
  succeeds and the table is printed.
\<close>

theorem frame_without_data_counterexamples:
  "raised (format_data_display lib_sample (DataFrame recs_unit_only) 1448 ''humidity'') =
     Some (key_error ''timestamp'') \<and>
   display (format_data_display lib_sample (DataFrame recs_unit_only) 1448 ''humidity'') = [] \<and>
   raised (format_data_display lib_sample (DataFrame recs_labelled) 1448 ''humidity'') = None \<and>
   grids (display (format_data_display lib_sample (DataFrame recs_labelled) 1448 ''humidity'')) =
     [grid_labelled]"
  by code_simp

text \<open>
  Claim C10, amended: for every non-empty frame of readings that has a timestamp column
  whose cells convert, no \<^verbatim>\<open>data\<close> column and no column that already bears the label of
  the value column, the summary is printed with the mean and the maximum as "N/A", then the
  heading of the table, and the selection of the display columns raises KeyError for the
  label: no table is printed.
\<close>

theorem frame_without_data_fails_at_table:
  assumes rows: "0 < nrows df" and wf: "wf_df df"
      and nodata: "map_of (cols df) ''data'' = None"
      and ts: "map_of (cols df) ''timestamp'' = Some ts"
      and sh: "those (map (pt lib) ts) = Some shown"
      and fresh: "column_name df measurement_type \<notin> set (columns df)"
  shows "raised (format_data_display lib df cell_id measurement_type) =
           Some (key_error (column_name df measurement_type)) \<and>
         display (format_data_display lib df cell_id measurement_type) =
           summary_lines cell_id measurement_type
             [(''Cell ID'', show_int cell_id),
              (''Measurement Type'', measurement_name measurement_type),
              (''Time Range'', hd shown @ '' to '' @ last shown),
              (''Data Points'', show_nat (nrows df)),
              (''Avg '' @ column_name df measurement_type, ''N/A''),
              (''Max '' @ column_name df measurement_type, ''N/A'')]
           @ [Text ''DATA BY TIMESTAMPS:''] \<and>
         grids (display (format_data_display lib df cell_id measurement_type)) = []"
proof -
  let ?cn = "column_name df measurement_type"
  define df' where "df' = df\<lparr>cols := (''timestamp'', map JStr shown)
                              # filter (\<lambda>col. fst col \<noteq> ''timestamp'') (cols df)\<rparr>"
  have f: "format_timestamps lib df = Inr df'"
    unfolding df'_def by (rule format_timestamps_ok [OF ts sh])
  have n: "nrows df' = nrows df" by (simp add: df'_def)
  have "(''timestamp'', ts) \<in> set (cols df)" using ts by (rule map_of_SomeD)
  then have "length ts = nrows df" using wf by (auto simp: wf_df_def list_all_iff)
  moreover have "length shown = length ts"
    using those_map_Some [OF sh] by (metis length_map)
  ultimately have "shown \<noteq> []" using rows by auto
  then obtain t rest where shown: "shown = t # rest" by (cases shown) auto
  have other: "map_of (cols df') k = map_of (cols df) k" if "k \<noteq> ''timestamp''" for k
    using that by (simp add: df'_def map_of_filter_other)
  have u: "unit_of df' measurement_type = unit_of df measurement_type"
    by (simp add: unit_of_def other n split: option.splits list.splits)
  have cn: "column_name df' measurement_type = ?cn"
    by (simp add: column_name_def u)
  have d: "data_values df' = []"
    by (simp add: data_values_def other nodata)
  have "last (map JStr shown) = JStr (last shown)"
    using \<open>shown \<noteq> []\<close> by (simp add: last_map)
  then have tr: "time_range df' = Inr (hd shown @ '' to '' @ last shown)"
    using rows by (simp add: time_range_def n column_def df'_def shown py_str_def)
  have st: "stats lib df' cell_id measurement_type =
     Inr [(''Cell ID'', show_int cell_id),
          (''Measurement Type'', measurement_name measurement_type),
          (''Time Range'', hd shown @ '' to '' @ last shown),
          (''Data Points'', show_nat (nrows df)),
          (''Avg '' @ ?cn, ''N/A''),
          (''Max '' @ ?cn, ''N/A'')]"
    by (simp add: stats_def tr d stat_def cn n)
  let ?ren = "rename [(''timestamp'', ''Measurement Time (PT)''), (''data'', ?cn)] df'"
  have nodata': "fst col \<noteq> ''data''" if "col \<in> set (cols df)" for col
    using nodata that by (force simp: map_of_eq_None_iff)
  have fresh': "fst col \<noteq> ?cn" if "col \<in> set (cols df)" for col
    using fresh that by (force simp: columns_def)
  have neq: "?cn \<noteq> ''Measurement Time (PT)''"
    unfolding column_name_def by (rule label_not_time_label)
  have a: "filter (\<lambda>col. fst col = ''Measurement Time (PT)'') (cols ?ren) \<noteq> []"
    by (simp add: rename_def df'_def)
  have b: "filter (\<lambda>col. fst col = ?cn) (cols ?ren) = []"
    using nodata' fresh' neq
    by (fastforce simp: rename_def df'_def filter_empty_conv split: option.splits if_splits)
  have sel: "select ?ren [''Measurement Time (PT)'', ?cn] = Inl (key_error ?cn)"
    by (rule select_missing [OF a b])
  have nr: "nrows ?ren = nrows df" by (simp add: rename_def n)
  show ?thesis
    using rows
    by (simp add: format_data_display_def f st cn sel nr Let_def grids_append grids_summary
          del: select.simps)
qed


theorem frame_without_data_fails_at_table_witness:
  "0 < nrows (DataFrame recs_no_data) \<and> wf_df (DataFrame recs_no_data) \<and>
   map_of (cols (DataFrame recs_no_data)) ''data'' = None \<and>
   map_of (cols (DataFrame recs_no_data)) ''timestamp'' = Some [JStr ''t1'', JStr ''t22''] \<and>
   those (map (pt lib_sample) [JStr ''t1'', JStr ''t22'']) = Some [''PT t1'', ''PT t22''] \<and>
   column_name (DataFrame recs_no_data) ''humidity'' \<notin> set (columns (DataFrame recs_no_data)) \<and>
   raised (format_data_display lib_sample (DataFrame recs_no_data) 1448 ''humidity'') =
     Some (key_error (column_name (DataFrame recs_no_data) ''humidity'')) \<and>
   grids (display (format_data_display lib_sample (DataFrame recs_no_data) 1448 ''humidity'')) = []"
proof -
  have h1: "0 < nrows (DataFrame recs_no_data)" by code_simp
  have h2: "wf_df (DataFrame recs_no_data)" by code_simp
  have h3: "map_of (cols (DataFrame recs_no_data)) ''data'' = None" by code_simp
  have h4: "map_of (cols (DataFrame recs_no_data)) ''timestamp'' = Some [JStr ''t1'', JStr ''t22'']"
    by code_simp
  have h5: "those (map (pt lib_sample) [JStr ''t1'', JStr ''t22'']) = Some [''PT t1'', ''PT t22'']"
    by code_simp
  have h6: "column_name (DataFrame recs_no_data) ''humidity'' \<notin> set (columns (DataFrame recs_no_data))"
    by code_simp
  show ?thesis
    using h1 h2 h3 h4 h5 h6
      frame_without_data_fails_at_table [OF h1 h2 h3 h4 h5 h6, of 1448]
    by blast
qed

end
